theory Spec2Isabelle
  imports Complex_Main "HOL-Library.Log_Nat"
begin

section \<open>Atlas Jenga game: sensor classifier, game state machine, score\<close>

text \<open>
  A shallow embedding of \<^verbatim>\<open>atlas_game_main.py\<close>. A Python float is the real
  number it denotes, and every arithmetic operation on floats rounds its exact result to
  the nearest double (infinities and NaN are outside the model); Python ints are
  \<^typ>\<open>int\<close>. Objects become records that are passed in and returned updated.
  Everything the program reads from outside (serial lines, the clock, the event queue,
  the outcome of a database write) is an explicit argument.
\<close>

subsection \<open>Constants\<close>

definition GAME_DURATION :: real where "GAME_DURATION = 120"
definition BLOCKS_TO_WIN :: int where "BLOCKS_TO_WIN = 10"
definition WEIGHT_THRESHOLD :: real where "WEIGHT_THRESHOLD = 5"
definition COLLAPSE_THRESHOLD :: real where "COLLAPSE_THRESHOLD = 30"

subsection \<open>Double-precision arithmetic\<close>

text \<open>Rounding to the nearest integer, a tie going to the even one.\<close>

definition round_even :: "real \<Rightarrow> int" where
  "round_even x =
     (let f = \<lfloor>x\<rfloor>; r = x - of_int f in
      if r < 1 / 2 then f
      else if r > 1 / 2 then f + 1
      else if even f then f else f + 1)"

text \<open>The exponent \<open>k\<close> with \<open>2 powi k \<le> \<bar>x\<bar> < 2 powi (k + 1)\<close>, for \<open>x\<close> other than 0.\<close>

definition binade :: "real \<Rightarrow> int" where
  "binade x =
     (if 1 \<le> \<bar>x\<bar> then bitlen \<lfloor>\<bar>x\<bar>\<rfloor> - 1
      else - bitlen (\<lceil>1 / \<bar>x\<bar>\<rceil> - 1))"

text \<open>
  \<open>fl x\<close> is the double nearest to \<open>x\<close>: 53 significant bits, ties to even, with the
  fixed spacing \<open>2 powi (- 1074)\<close> in the subnormal range. Results beyond the largest
  double are not turned into infinities.
\<close>

definition fl :: "real \<Rightarrow> real" where
  "fl x =
     (if x = 0 then 0
      else (let e = max (binade x - 52) (- 1074) in
            of_int (round_even (x * 2 powi (- e))) * 2 powi e))"

text \<open>The float operations \<^verbatim>\<open>-\<close>, \<^verbatim>\<open>+\<close> and \<^verbatim>\<open>*\<close>.\<close>

definition fsub :: "real \<Rightarrow> real \<Rightarrow> real" where
  "fsub x y = fl (x - y)"

definition fadd :: "real \<Rightarrow> real \<Rightarrow> real" where
  "fadd x y = fl (x + y)"

definition fmul :: "real \<Rightarrow> real \<Rightarrow> real" where
  "fmul x y = fl (x * y)"

subsection \<open>Text operations used by the sampler\<close>

text \<open>
  Text is a list of characters with code points below 256. \<open>is_space\<close> lists the
  characters of that range that \<^verbatim>\<open>str.strip()\<close> removes.
\<close>

definition is_space :: "char \<Rightarrow> bool" where
  "is_space c = ((of_char c :: nat) \<in> {9, 10, 11, 12, 13, 28, 29, 30, 31, 32, 133, 160})"

definition strip :: "string \<Rightarrow> string" where
  "strip s = rev (dropWhile is_space (rev (dropWhile is_space s)))"

text \<open>
  \<open>split_at sep s\<close> cuts \<open>s\<close> at the first occurrence of \<open>sep\<close>: the text before it
  and the text after it.
\<close>

fun split_at :: "string \<Rightarrow> string \<Rightarrow> (string \<times> string) option" where
  "split_at sep [] = (if sep = [] then Some ([], []) else None)"
| "split_at sep (c # cs) =
     (if take (length sep) (c # cs) = sep then Some ([], drop (length sep) (c # cs))
      else (case split_at sep cs of
              None \<Rightarrow> None
            | Some (a, b) \<Rightarrow> Some (c # a, b)))"

text \<open>\<^verbatim>\<open>sep in s\<close>\<close>

definition contains :: "string \<Rightarrow> string \<Rightarrow> bool" where
  "contains sep s = (split_at sep s \<noteq> None)"

text \<open>
  \<^verbatim>\<open>s.split(sep)[1]\<close> for a non-empty \<open>sep\<close> that occurs in \<open>s\<close>: the text between
  the first occurrence and the next one (or the end). Where \<open>sep\<close> does not occur the
  Python raises IndexError; the sampler only calls it after the \<^verbatim>\<open>in\<close> test.
\<close>

definition split_item1 :: "string \<Rightarrow> string \<Rightarrow> string option" where
  "split_item1 sep s =
     (case split_at sep s of
        None \<Rightarrow> None
      | Some (_, rest) \<Rightarrow>
          (case split_at sep rest of
             None \<Rightarrow> Some rest
           | Some (item, _) \<Rightarrow> Some item))"

definition label :: string where
  "label = ''Load_cell output val:''"

subsection \<open>SerialHandler\<close>

text \<open>
  One entry of the port's receive queue: a line whose bytes decode to the given text, or
  \<open>Fault\<close>, an access that ends in the sampler's \<^verbatim>\<open>except\<close> clause before any text
  is parsed (a \<^verbatim>\<open>SerialException\<close>, or bytes that do not decode: a
  \<^verbatim>\<open>UnicodeDecodeError\<close> is a \<^verbatim>\<open>ValueError\<close>).
\<close>

datatype rx = Text string | Fault

text \<open>
  \<open>serial = None\<close> is the port that could not be opened; \<open>Some q\<close> is an open port
  with the lines \<open>q\<close> waiting (\<^verbatim>\<open>in_waiting\<close> is non-zero iff \<open>q\<close> is not empty).
\<close>

record serial_handler =
  serial :: "rx list option"
  last_weight :: real

text \<open>
  \<^verbatim>\<open>SerialHandler.__init__\<close>: \<open>port\<close> is the result of opening the port (\<open>None\<close>
  when \<^verbatim>\<open>serial.Serial\<close> raised).
\<close>

definition SerialHandler_init :: "rx list option \<Rightarrow> serial_handler" where
  "SerialHandler_init port = \<lparr>serial = port, last_weight = 0\<rparr>"

text \<open>
  \<^verbatim>\<open>float(...)\<close> of the Python runtime is the parameter \<open>to_float\<close>: \<open>None\<close> is the
  \<^verbatim>\<open>ValueError\<close>. \<open>parse_line\<close> is the body of the \<^verbatim>\<open>if in_waiting\<close> branch
  once the line is decoded.
\<close>

definition parse_line :: "(string \<Rightarrow> real option) \<Rightarrow> string \<Rightarrow> real option" where
  "parse_line to_float raw =
     (let data = strip raw in
      if contains label data then
        (case split_item1 label data of
           None \<Rightarrow> None
         | Some value_part \<Rightarrow> to_float (strip value_part))
      else to_float data)"

text \<open>
  \<^verbatim>\<open>read_weight\<close> returns the weight and the handler with the line it consumed
  removed from the queue. It never assigns \<^verbatim>\<open>self.last_weight\<close>.
\<close>

definition read_weight ::
  "(string \<Rightarrow> real option) \<Rightarrow> serial_handler \<Rightarrow> real \<times> serial_handler" where
  "read_weight to_float h =
     (case serial h of
        None \<Rightarrow> (0, h)
      | Some [] \<Rightarrow> (last_weight h, h)
      | Some (Fault # q) \<Rightarrow> (last_weight h, h\<lparr>serial := Some q\<rparr>)
      | Some (Text raw # q) \<Rightarrow>
          (case parse_line to_float raw of
             Some v \<Rightarrow> (v, h\<lparr>serial := Some q\<rparr>)
           | None \<Rightarrow> (last_weight h, h\<lparr>serial := Some q\<rparr>)))"

definition detect_block_removal ::
  "(string \<Rightarrow> real option) \<Rightarrow> serial_handler \<Rightarrow> bool \<times> serial_handler" where
  "detect_block_removal to_float h =
     (let (current_weight, h1) = read_weight to_float h in
      if \<bar>fsub current_weight (last_weight h1)\<bar> > WEIGHT_THRESHOLD
      then (True, h1\<lparr>last_weight := current_weight\<rparr>)
      else (False, h1))"

definition detect_tower_collapse ::
  "(string \<Rightarrow> real option) \<Rightarrow> serial_handler \<Rightarrow> bool \<times> serial_handler" where
  "detect_tower_collapse to_float h =
     (let (current_weight, h1) = read_weight to_float h;
          weight_change = fsub current_weight (last_weight h1) in
      if weight_change > COLLAPSE_THRESHOLD
      then (True, h1\<lparr>last_weight := current_weight\<rparr>)
      else (False, h1))"

text \<open>Data arriving on the line between two frames joins the end of the queue.\<close>

definition receive :: "rx list \<Rightarrow> serial_handler \<Rightarrow> serial_handler" where
  "receive new h =
     (case serial h of
        None \<Rightarrow> h
      | Some q \<Rightarrow> h\<lparr>serial := Some (q @ new)\<rparr>)"

subsection \<open>The event the frame update acts on\<close>

text \<open>
  \<^verbatim>\<open>update\<close> asks the collapse detector first and the removal detector only when
  the first one said no. \<open>classify\<close> names the outcome of that sequence.
\<close>

datatype event = NoEvent | BlockRemoved | TowerCollapsed

definition classify ::
  "(string \<Rightarrow> real option) \<Rightarrow> serial_handler \<Rightarrow> event \<times> serial_handler" where
  "classify to_float h =
     (let (collapsed, h1) = detect_tower_collapse to_float h in
      if collapsed then (TowerCollapsed, h1)
      else (let (removed, h2) = detect_block_removal to_float h1 in
            (if removed then BlockRemoved else NoEvent, h2)))"

subsection \<open>Score and leaderboard\<close>

record score =
  score_team_name :: string
  score_blocks_removed :: int
  score_time_remaining :: real
  score_total_score :: int
  score_timestamp :: real

datatype error = PersistenceFailure

text \<open>
  The leaderboard table is the list of its rows in insertion order. \<open>add_score\<close>
  raises when the database write fails (\<open>db_fails\<close>, decided outside the program).
\<close>

definition add_score :: "bool \<Rightarrow> score \<Rightarrow> score list \<Rightarrow> error + score list" where
  "add_score db_fails sc rows = (if db_fails then Inl PersistenceFailure else Inr (rows @ [sc]))"

subsection \<open>AtlasJengaGame\<close>

datatype game_state = PREGAME | PLAYING | POSTGAME

record game =
  serial_handler :: serial_handler
  leaderboard :: "score list"
  played :: "string list"
  state :: game_state
  blocks_removed :: int
  start_time :: real
  time_remaining :: real
  current_score :: int
  team_name :: string
  tower_collapsed :: bool

text \<open>\<^verbatim>\<open>AudioManager.play_sound\<close>: the sounds played so far, oldest first.\<close>

definition play_sound :: "string \<Rightarrow> game \<Rightarrow> game" where
  "play_sound sound_name g =
     (if sound_name \<in> {''block_removed'', ''success'', ''failure''}
      then g\<lparr>played := played g @ [sound_name]\<rparr> else g)"

text \<open>\<open>now\<close> is the value of \<^verbatim>\<open>time.time()\<close> at the call.\<close>

definition reset_game :: "(string \<Rightarrow> real option) \<Rightarrow> real \<Rightarrow> game \<Rightarrow> game" where
  "reset_game to_float now g =
     (let (w, h) = read_weight to_float (serial_handler g) in
      g\<lparr>blocks_removed := 0,
        start_time := now,
        time_remaining := GAME_DURATION,
        current_score := 0,
        team_name := [],
        tower_collapsed := False,
        serial_handler := h\<lparr>last_weight := w\<rparr>\<rparr>)"

text \<open>
  \<^verbatim>\<open>AtlasJengaGame.__init__\<close>: \<open>port\<close> is the result of opening the serial port,
  \<open>rows\<close> the rows already in the database.
\<close>

definition AtlasJengaGame_init ::
  "(string \<Rightarrow> real option) \<Rightarrow> rx list option \<Rightarrow> score list \<Rightarrow> real \<Rightarrow> game" where
  "AtlasJengaGame_init to_float port rows now =
     reset_game to_float now
       \<lparr>serial_handler = SerialHandler_init port,
        leaderboard = rows,
        played = [],
        state = PREGAME,
        blocks_removed = 0,
        start_time = now,
        time_remaining = GAME_DURATION,
        current_score = 0,
        team_name = [],
        tower_collapsed = False\<rparr>"

text \<open>\<^verbatim>\<open>int(x)\<close> on a float truncates towards zero.\<close>

definition py_int :: "real \<Rightarrow> int" where
  "py_int x = (if 0 \<le> x then \<lfloor>x\<rfloor> else \<lceil>x\<rceil>)"

text \<open>
  The two additions are float additions, the int operands entering as the doubles
  nearest to them. (\<^verbatim>\<open>reset_game\<close> stores the int 120 in
  \<^verbatim>\<open>time_remaining\<close>; no block is counted until \<^verbatim>\<open>update\<close> has replaced
  it by a float, and with no block the int and the float computation both give 1200.)
\<close>

definition calculate_score :: "game \<Rightarrow> int" where
  "calculate_score g =
     (let speed_bonus = fmul (time_remaining g) 10;
          stability_bonus = (if blocks_removed g \<ge> BLOCKS_TO_WIN then 100 else 0) in
      py_int (fadd (fadd speed_bonus stability_bonus)
                (fl (of_int (blocks_removed g * 100)))))"

subsection \<open>Input events\<close>

datatype key = K_RETURN | K_BACKSPACE | K_OTHER string

datatype pg_event = QUIT | KEYDOWN key | MOUSEBUTTONDOWN | OTHER_EVENT

text \<open>What the handler of one event reads from outside: the clock and the database.\<close>

record env =
  now :: real
  db_fails :: bool

text \<open>
  The body of the \<^verbatim>\<open>for\<close> loop of \<^verbatim>\<open>handle_events\<close> for an event other than
  \<^verbatim>\<open>QUIT\<close>. \<open>ts0\<close> is the default of \<^verbatim>\<open>Score.timestamp\<close>: the class body
  evaluates \<^verbatim>\<open>time.time()\<close> once, when the module is loaded, and the handler
  builds the Score without a timestamp argument.
\<close>

definition handle_event ::
  "(string \<Rightarrow> real option) \<Rightarrow> real \<Rightarrow> pg_event \<Rightarrow> env \<Rightarrow> game \<Rightarrow> error + game" where
  "handle_event to_float ts0 ev e g =
     (case ev of
        KEYDOWN k \<Rightarrow>
          (if state g = POSTGAME then
             (case k of
                K_RETURN \<Rightarrow>
                  (let sc = \<lparr>score_team_name = team_name g,
                             score_blocks_removed = blocks_removed g,
                             score_time_remaining = time_remaining g,
                             score_total_score = calculate_score g,
                             score_timestamp = ts0\<rparr> in
                   case add_score (db_fails e) sc (leaderboard g) of
                     Inl err \<Rightarrow> Inl err
                   | Inr rows \<Rightarrow> Inr (g\<lparr>leaderboard := rows, state := PREGAME\<rparr>))
              | K_BACKSPACE \<Rightarrow> Inr (g\<lparr>team_name := butlast (team_name g)\<rparr>)
              | K_OTHER unicode \<Rightarrow> Inr (g\<lparr>team_name := team_name g @ unicode\<rparr>))
           else Inr g)
      | MOUSEBUTTONDOWN \<Rightarrow>
          (if state g = PREGAME
           then Inr (reset_game to_float (now e) (g\<lparr>state := PLAYING\<rparr>))
           else Inr g)
      | _ \<Rightarrow> Inr g)"

text \<open>
  \<^verbatim>\<open>handle_events\<close> over the events of one frame: the value returned, or the
  exception that left it, and the game object as it then is.
\<close>

fun handle_events ::
  "(string \<Rightarrow> real option) \<Rightarrow> real \<Rightarrow> (pg_event \<times> env) list \<Rightarrow> game
     \<Rightarrow> (error + bool) \<times> game" where
  "handle_events to_float ts0 [] g = (Inr True, g)"
| "handle_events to_float ts0 ((ev, e) # rest) g =
     (if ev = QUIT then (Inr False, g)
      else (case handle_event to_float ts0 ev e g of
              Inl err \<Rightarrow> (Inl err, g)
            | Inr g' \<Rightarrow> handle_events to_float ts0 rest g'))"

text \<open>\<^verbatim>\<open>update\<close>; \<open>t\<close> is \<^verbatim>\<open>time.time()\<close> at the call.\<close>

definition update :: "(string \<Rightarrow> real option) \<Rightarrow> real \<Rightarrow> game \<Rightarrow> game" where
  "update to_float t g =
     (if state g = PLAYING then
        (let g1 = g\<lparr>time_remaining := fsub GAME_DURATION (fsub t (start_time g))\<rparr>;
             (collapsed, h1) = detect_tower_collapse to_float (serial_handler g1) in
         if collapsed then
           (play_sound ''failure'' (g1\<lparr>serial_handler := h1\<rparr>))\<lparr>state := POSTGAME\<rparr>
         else
           (let (removed, h2) = detect_block_removal to_float h1;
                g2 = g1\<lparr>serial_handler := h2\<rparr>;
                g3 = (if removed then
                        (let g4 = play_sound ''block_removed''
                                    (g2\<lparr>blocks_removed := blocks_removed g2 + 1\<rparr>) in
                         if blocks_removed g4 \<ge> BLOCKS_TO_WIN
                         then (play_sound ''success'' g4)\<lparr>state := POSTGAME\<rparr>
                         else g4)
                      else g2) in
            if time_remaining g3 \<le> 0
            then (play_sound ''failure'' g3)\<lparr>state := POSTGAME\<rparr>
            else g3))
      else g)"

subsection \<open>The main loop\<close>

text \<open>
  One pass of the \<^verbatim>\<open>while\<close> loop of \<^verbatim>\<open>run\<close>: the lines that reached the port
  since the last pass, the queued input events, and the clock at \<^verbatim>\<open>update\<close>.
  Drawing writes none of the fields modelled here and is left out.
\<close>

record frame =
  arrivals :: "rx list"
  events :: "(pg_event \<times> env) list"
  tick_time :: real

datatype outcome = Running game | Finished game | Crashed error game

fun final :: "outcome \<Rightarrow> game" where
  "final (Running g) = g"
| "final (Finished g) = g"
| "final (Crashed err g) = g"

text \<open>
  \<open>run\<close> over the frames given: \<open>Running\<close> when the loop is still going after the
  last of them, \<open>Finished\<close> when \<^verbatim>\<open>handle_events\<close> returned False (the frame is
  completed first), \<open>Crashed\<close> when an exception left the loop.
\<close>

fun run :: "(string \<Rightarrow> real option) \<Rightarrow> real \<Rightarrow> frame list \<Rightarrow> game \<Rightarrow> outcome" where
  "run to_float ts0 [] g = Running g"
| "run to_float ts0 (f # fs) g =
     (let g0 = g\<lparr>serial_handler := receive (arrivals f) (serial_handler g)\<rparr> in
      case handle_events to_float ts0 (events f) g0 of
        (Inl err, g1) \<Rightarrow> Crashed err g1
      | (Inr running, g1) \<Rightarrow>
          (let g2 = update to_float (tick_time f) g1 in
           if running then run to_float ts0 fs g2 else Finished g2))"

subsection \<open>A reader for plain decimal numerals\<close>

text \<open>
  The firmware prints readings as an optional sign, digits and an optional fraction.
  \<open>float_plain\<close> reads that notation and returns the double nearest to the decimal
  value; it stands for \<^verbatim>\<open>float\<close> in the worked examples below. The general
  theorems hold for every \<open>to_float\<close>.
\<close>

definition digit_val :: "char \<Rightarrow> nat option" where
  "digit_val c =
     (let n = (of_char c :: nat) in if 48 \<le> n \<and> n \<le> 57 then Some (n - 48) else None)"

fun digits_val :: "nat \<Rightarrow> string \<Rightarrow> nat option" where
  "digits_val acc [] = Some acc"
| "digits_val acc (c # cs) =
     (case digit_val c of
        None \<Rightarrow> None
      | Some d \<Rightarrow> digits_val (10 * acc + d) cs)"

definition unsigned_plain :: "string \<Rightarrow> real option" where
  "unsigned_plain s =
     (let ip = takeWhile (\<lambda>c. c \<noteq> CHR ''.'') s;
          fp = drop 1 (dropWhile (\<lambda>c. c \<noteq> CHR ''.'') s) in
      if ip = [] \<and> fp = [] then None
      else (case (digits_val 0 ip, digits_val 0 fp) of
              (Some i, Some f) \<Rightarrow> Some (fl (real i + real f / 10 ^ length fp))
            | _ \<Rightarrow> None))"

definition float_plain :: "string \<Rightarrow> real option" where
  "float_plain s =
     (case strip s of
        [] \<Rightarrow> None
      | c # cs \<Rightarrow>
          if c = CHR ''-'' then map_option uminus (unsigned_plain cs)
          else if c = CHR ''+'' then unsigned_plain cs
          else unsigned_plain (c # cs))"

subsection \<open>Auxiliary notions for the properties\<close>

text \<open>
  The handler as \<^verbatim>\<open>SerialHandler.__init__\<close> leaves it when the port cannot be
  opened.
\<close>

definition offline :: "serial_handler \<Rightarrow> bool" where
  "offline h = (serial h = None \<and> last_weight h = 0)"

text \<open>
  The events of successive frame updates of a game that stays in \<open>PLAYING\<close>, given
  the lines that arrive before each of them.
\<close>

fun tick_events ::
  "(string \<Rightarrow> real option) \<Rightarrow> rx list list \<Rightarrow> serial_handler \<Rightarrow> event list" where
  "tick_events to_float [] h = []"
| "tick_events to_float (new # rest) h =
     (let (ev, h') = classify to_float (receive new h) in ev # tick_events to_float rest h')"

text \<open>\<open>new\<close> is \<open>old\<close> followed by rows that all carry the timestamp \<open>ts0\<close>.\<close>

definition added_with :: "real \<Rightarrow> score list \<Rightarrow> score list \<Rightarrow> bool" where
  "added_with ts0 old new =
     (take (length old) new = old
      \<and> (\<forall>sc \<in> set (drop (length old) new). score_timestamp sc = ts0))"

text \<open>None of the float operations of \<^verbatim>\<open>calculate_score\<close> rounds its result.\<close>

definition score_unrounded :: "game \<Rightarrow> bool" where
  "score_unrounded g =
     (let s = time_remaining g * 10;
          k = (if blocks_removed g \<ge> BLOCKS_TO_WIN then 100 else 0);
          m = of_int (blocks_removed g * 100) in
      fmul (time_remaining g) 10 = s \<and> fadd s k = s + k \<and> fl m = m
      \<and> fadd (s + k) m = s + k + m)"

subsection \<open>Inputs of the worked examples\<close>

text \<open>
  A game in \<open>PLAYING\<close>, started at time 0, with \<open>b\<close> blocks removed, the lines \<open>q\<close>
  waiting on the port and 100 as the stored weight.
\<close>

definition playing_game :: "rx list \<Rightarrow> int \<Rightarrow> game" where
  "playing_game q b =
     \<lparr>serial_handler = \<lparr>serial = Some q, last_weight = 100\<rparr>,
      leaderboard = [], played = [], state = PLAYING, blocks_removed = b,
      start_time = 0, time_remaining = 120, current_score = 0, team_name = [],
      tower_collapsed = False\<rparr>"

text \<open>A game that ran out of time with five blocks removed; the team typed its name.\<close>

definition finished_game :: game where
  "finished_game =
     (playing_game [] 5)\<lparr>state := POSTGAME, time_remaining := 0, team_name := ''ab''\<rparr>"

definition idle_frame :: "real \<Rightarrow> frame" where
  "idle_frame t = \<lparr>arrivals = [], events = [], tick_time = t\<rparr>"

definition sample_frame :: "string \<Rightarrow> real \<Rightarrow> frame" where
  "sample_frame line t = \<lparr>arrivals = [Text line], events = [], tick_time = t\<rparr>"

definition key_frame :: "key \<Rightarrow> real \<Rightarrow> frame" where
  "key_frame k t =
     \<lparr>arrivals = [], events = [(KEYDOWN k, \<lparr>now = t, db_fails = False\<rparr>)], tick_time = t\<rparr>"

definition click_frame :: "real \<Rightarrow> frame" where
  "click_frame t =
     \<lparr>arrivals = [], events = [(MOUSEBUTTONDOWN, \<lparr>now = t, db_fails = False\<rparr>)],
      tick_time = t\<rparr>"

text \<open>The Enter key pressed while the database refuses the write.\<close>

definition submit_fails :: frame where
  "submit_fails =
     \<lparr>arrivals = [], events = [(KEYDOWN K_RETURN, \<lparr>now = 130, db_fails = True\<rparr>)],
      tick_time = 130\<rparr>"

text \<open>
  Submit at 130 s, start a second game at 140 s, let it time out, submit again at
  300 s.
\<close>

definition two_games :: "frame list" where
  "two_games =
     [key_frame K_RETURN 130, click_frame 140, idle_frame 261, key_frame K_RETURN 300]"

section \<open>Basic facts\<close>

subsection \<open>Values that rounding leaves alone\<close>

lemma round_even_of_int [simp]: "round_even (of_int n) = n"
  by (simp add: round_even_def)

lemma fl_zero [simp]: "fl 0 = 0"
  by (simp add: fl_def)

lemma binade_upper:
  assumes "x \<noteq> 0" and "\<bar>x\<bar> < 2 powi (k + 1)"
  shows "binade x \<le> k"
proof (cases "1 \<le> \<bar>x\<bar>")
  case True
  then have big: "(1::real) < 2 powi (k + 1)" using assms(2) by linarith
  have k: "0 \<le> k"
  proof (rule ccontr)
    assume "\<not> 0 \<le> k"
    then have "k + 1 \<le> 0" by simp
    then have "(2::real) powi (k + 1) = (1 / 2) ^ nat (- (k + 1))"
      by (cases "k + 1 = 0") (simp_all add: power_int_def inverse_eq_divide)
    also have "\<dots> \<le> 1" by (intro power_le_one) simp_all
    finally show False using big by simp
  qed
  then have "\<bar>x\<bar> < 2 ^ nat (k + 1)" using assms(2) by (simp add: power_int_def)
  then have "of_int \<lfloor>\<bar>x\<bar>\<rfloor> < (2::real) ^ nat (k + 1)"
    using of_int_floor_le [of "\<bar>x\<bar>"] by linarith
  then have "\<lfloor>\<bar>x\<bar>\<rfloor> < 2 ^ nat (k + 1)"
    by (metis of_int_less_iff of_int_numeral of_int_power)
  then have "bitlen \<lfloor>\<bar>x\<bar>\<rfloor> \<le> k + 1"
    using k by (simp add: bitlen_le_iff_power)
  then show ?thesis using True by (simp add: binade_def)
next
  case False
  then have small: "\<bar>x\<bar> < 1" by simp
  show ?thesis
  proof (cases "0 \<le> k")
    case True
    then show ?thesis using small bitlen_nonneg [of "\<lceil>1 / \<bar>x\<bar>\<rceil> - 1"]
      by (simp add: binade_def)
  next
    case neg: False
    define p where "p = nat (- k - 1)"
    have kp: "k + 1 = - int p" using neg by (simp add: p_def)
    have pos: "0 < \<bar>x\<bar>" using assms(1) by simp
    have "(2::real) powi (- int p) = 1 / 2 ^ p"
      by (simp add: power_int_minus inverse_eq_divide)
    then have "\<bar>x\<bar> < 1 / 2 ^ p"
      using assms(2) unfolding kp by simp
    then have "2 ^ p < 1 / \<bar>x\<bar>"
      using pos by (simp add: field_simps)
    then have "(2::real) ^ p < of_int \<lceil>1 / \<bar>x\<bar>\<rceil>"
      using le_of_int_ceiling [of "1 / \<bar>x\<bar>"] by linarith
    then have "(2::int) ^ p < \<lceil>1 / \<bar>x\<bar>\<rceil>"
      by (metis of_int_less_iff of_int_numeral of_int_power)
    then have "2 ^ (nat (- k) - 1) \<le> \<lceil>1 / \<bar>x\<bar>\<rceil> - 1"
      using neg by (simp add: p_def nat_diff_distrib)
    then have "- k \<le> bitlen (\<lceil>1 / \<bar>x\<bar>\<rceil> - 1)"
      by (simp add: bitlen_ge_iff_power)
    then show ?thesis using small by (simp add: binade_def)
  qed
qed

lemma binade_lower:
  assumes "x \<noteq> 0"
  shows "2 powi binade x \<le> \<bar>x\<bar>"
proof (cases "1 \<le> \<bar>x\<bar>")
  case True
  let ?m = "\<lfloor>\<bar>x\<bar>\<rfloor>"
  have m: "0 < ?m" using True by simp
  then have "1 \<le> bitlen ?m"
    by (simp add: bitlen_ge_iff_power)
  have "2 ^ nat (bitlen ?m - 1) \<le> ?m" using bitlen_bounds [OF m] ..
  then have "(2::real) ^ nat (bitlen ?m - 1) \<le> of_int ?m"
    by (metis of_int_le_iff of_int_numeral of_int_power)
  also have "\<dots> \<le> \<bar>x\<bar>" by (rule of_int_floor_le)
  finally show ?thesis
    using True \<open>1 \<le> bitlen ?m\<close> by (simp add: binade_def power_int_def)
next
  case False
  then have small: "\<bar>x\<bar> < 1" by simp
  have pos: "0 < \<bar>x\<bar>" using assms by simp
  let ?m = "\<lceil>1 / \<bar>x\<bar>\<rceil> - 1"
  have "1 < 1 / \<bar>x\<bar>" using small pos by simp
  then have m: "0 < ?m" by (simp add: less_ceiling_iff)
  have "?m < 2 ^ nat (bitlen ?m)" using bitlen_bounds [OF m] ..
  then have "\<lceil>1 / \<bar>x\<bar>\<rceil> \<le> 2 ^ nat (bitlen ?m)" by simp
  then have "of_int \<lceil>1 / \<bar>x\<bar>\<rceil> \<le> (2::real) ^ nat (bitlen ?m)"
    by (metis of_int_le_iff of_int_numeral of_int_power)
  then have "1 / \<bar>x\<bar> \<le> 2 ^ nat (bitlen ?m)"
    using le_of_int_ceiling [of "1 / \<bar>x\<bar>"] by linarith
  then have "1 / 2 ^ nat (bitlen ?m) \<le> \<bar>x\<bar>"
    using pos by (simp add: field_simps)
  moreover have "(2::real) powi (- bitlen ?m) = 1 / 2 ^ nat (bitlen ?m)"
    using bitlen_nonneg [of ?m]
    by (simp add: power_int_def inverse_eq_divide power_one_over)
  ultimately show ?thesis using small by (simp add: binade_def)
qed

lemma fl_dyadic:
  assumes "\<bar>n\<bar> < 2 ^ 53" and "- 1074 \<le> j"
  shows "fl (of_int n * 2 powi j) = of_int n * 2 powi j"
proof (cases "n = 0")
  case True
  then show ?thesis by simp
next
  case False
  let ?x = "of_int n * 2 powi j :: real"
  have nz: "?x \<noteq> 0" using False by simp
  have "\<bar>?x\<bar> = of_int \<bar>n\<bar> * 2 powi j" by (simp add: abs_mult)
  also have "\<dots> < 2 ^ 53 * 2 powi j"
  proof -
    have "(of_int \<bar>n\<bar> :: real) < 2 ^ 53"
      using assms(1) by (metis of_int_less_iff of_int_numeral of_int_power)
    then show ?thesis by (simp add: mult_strict_right_mono)
  qed
  also have "\<dots> = 2 powi (52 + j + 1)"
    by (simp add: power_int_add)
  finally have "binade ?x \<le> 52 + j" using nz by (intro binade_upper)
  define e where "e = max (binade ?x - 52) (- 1074)"
  have ej: "e \<le> j" using \<open>binade ?x \<le> 52 + j\<close> assms(2) by (simp add: e_def)
  define d where "d = nat (j - e)"
  have "?x * 2 powi (- e) = of_int n * 2 powi (j - e)"
    by (simp add: power_int_diff power_int_minus field_simps)
  also have "\<dots> = of_int (n * 2 ^ d)"
    using ej by (simp add: d_def power_int_def)
  finally have "round_even (?x * 2 powi (- e)) = n * 2 ^ d"
    by (simp only: round_even_of_int)
  moreover have "of_int (n * 2 ^ d) * 2 powi e = ?x"
  proof -
    have "(2::real) ^ d = 2 powi (j - e)" using ej by (simp add: d_def power_int_def)
    then have "(of_int (n * 2 ^ d) :: real) * 2 powi e
        = of_int n * (2 powi (j - e) * 2 powi e)"
      by simp
    also have "\<dots> = ?x" by (simp flip: power_int_add)
    finally show ?thesis .
  qed
  ultimately show ?thesis using nz by (simp add: fl_def e_def Let_def)
qed

lemma fl_of_int: "\<bar>n\<bar> < 2 ^ 53 \<Longrightarrow> fl (of_int n) = of_int n"
  using fl_dyadic [of n 0] by simp

lemma fl_half_int: "\<bar>n\<bar> < 2 ^ 53 \<Longrightarrow> fl (of_int n / 2) = of_int n / 2"
  using fl_dyadic [of n "- 1"] by (simp add: power_int_minus field_simps)

lemma fl_numeral [simp]: "(numeral k :: int) < 2 ^ 53 \<Longrightarrow> fl (numeral k) = numeral k"
  using fl_of_int [of "numeral k"] by simp

lemma fl_neg_numeral [simp]: "(numeral k :: int) < 2 ^ 53 \<Longrightarrow> fl (- numeral k) = - numeral k"
  using fl_of_int [of "- numeral k"] by simp

lemma fl_one [simp]: "fl 1 = 1" "fl (- 1) = - 1"
  using fl_of_int [of 1] fl_of_int [of "- 1"] by simp_all

lemma fl_numeral_half [simp]:
  "(numeral k :: int) < 2 ^ 53 \<Longrightarrow> fl (numeral k / 2) = numeral k / 2"
  using fl_half_int [of "numeral k"] by simp

lemma fl_neg_numeral_half [simp]:
  "(numeral k :: int) < 2 ^ 53 \<Longrightarrow> fl (- (numeral k / 2)) = - (numeral k / 2)"
  using fl_half_int [of "- numeral k"] by simp

lemma fl_one_half [simp]: "fl (1 / 2) = 1 / 2" "fl (- (1 / 2)) = - (1 / 2)"
  using fl_half_int [of 1] fl_half_int [of "- 1"] by simp_all

lemma fsub_self [simp]: "fsub x x = 0"
  by (simp add: fsub_def)

lemmas float_ops = fsub_def fadd_def fmul_def

subsection \<open>Results that are rounded\<close>

text \<open>
  The doubles nearest to 35.1 and 5.1 differ by a little more than 30, and their float
  difference is 30; likewise 5.7 and 0.7 with 5.
\<close>

lemma fsub_rounds_to_30:
  "fsub (4939885841272013 / 140737488355328) (2871044762448691 / 562949953421312) = 30"
  by code_simp

lemma fsub_rounds_to_5:
  "fsub (6417629469002957 / 1125899906842624) (3152519739159347 / 4503599627370496) = 5"
  by code_simp

subsection \<open>Evaluation of the examples\<close>

lemmas thresholds = WEIGHT_THRESHOLD_def COLLAPSE_THRESHOLD_def

lemmas text_defs = parse_line_def float_plain_def strip_def is_space_def contains_def
  label_def split_item1_def unsigned_plain_def digit_val_def

lemmas sensor_defs = classify_def detect_tower_collapse_def detect_block_removal_def
  read_weight_def receive_def thresholds float_ops

lemma parse_plain_102: "parse_line float_plain ''102'' = Some 102"
  by (simp add: text_defs)

lemma parse_plain_97: "parse_line float_plain ''97'' = Some 97"
  by (simp add: text_defs)

lemma parse_plain_107: "parse_line float_plain ''107'' = Some 107"
  by (simp add: text_defs)

lemma parse_plain_12_5: "parse_line float_plain ''12.5'' = Some (25 / 2)"
  by (simp add: text_defs)

lemma parse_labelled_140: "parse_line float_plain ''Load_cell output val: 140'' = Some 140"
  by (simp add: text_defs)

lemma parse_plain_abc: "parse_line float_plain ''abc'' = None"
  by (simp add: text_defs)

lemmas parses = parse_plain_102 parse_plain_97 parse_plain_107 parse_plain_12_5
  parse_labelled_140 parse_plain_abc

subsection \<open>The sampler and the detectors\<close>

lemma read_weight_last_weight [simp]:
  "last_weight (snd (read_weight tf h)) = last_weight h"
  by (simp add: read_weight_def split: option.splits list.splits rx.splits)

lemma detect_tower_collapse_iff:
  "fst (detect_tower_collapse tf h)
     = (fsub (fst (read_weight tf h)) (last_weight h) > COLLAPSE_THRESHOLD)"
  by (simp add: detect_tower_collapse_def Let_def split_beta)

lemma detect_tower_collapse_False:
  "\<not> fst (detect_tower_collapse tf h)
   \<Longrightarrow> snd (detect_tower_collapse tf h) = snd (read_weight tf h)"
  by (simp add: detect_tower_collapse_def Let_def split_beta split: if_splits)

lemma detect_tower_collapse_True:
  "fst (detect_tower_collapse tf h) \<Longrightarrow>
   snd (detect_tower_collapse tf h)
     = (snd (read_weight tf h))\<lparr>last_weight := fst (read_weight tf h)\<rparr>"
  by (simp add: detect_tower_collapse_def Let_def split_beta split: if_splits)

lemma detect_block_removal_iff:
  "fst (detect_block_removal tf h)
     = (\<bar>fsub (fst (read_weight tf h)) (last_weight h)\<bar> > WEIGHT_THRESHOLD)"
  by (simp add: detect_block_removal_def Let_def split_beta)

lemma detect_block_removal_False:
  "\<not> fst (detect_block_removal tf h)
   \<Longrightarrow> snd (detect_block_removal tf h) = snd (read_weight tf h)"
  by (simp add: detect_block_removal_def Let_def split_beta split: if_splits)

lemma detect_block_removal_True:
  "fst (detect_block_removal tf h) \<Longrightarrow>
   snd (detect_block_removal tf h)
     = (snd (read_weight tf h))\<lparr>last_weight := fst (read_weight tf h)\<rparr>"
  by (simp add: detect_block_removal_def Let_def split_beta split: if_splits)

text \<open>
  The event in terms of the two reads: the collapse detector sees the first, the removal
  detector the second.
\<close>

lemma classify_fst:
  "fst (classify tf h) =
     (if fsub (fst (read_weight tf h)) (last_weight h) > COLLAPSE_THRESHOLD
      then TowerCollapsed
      else if \<bar>fsub (fst (read_weight tf (snd (read_weight tf h)))) (last_weight h)\<bar>
                > WEIGHT_THRESHOLD
           then BlockRemoved else NoEvent)"
proof (cases "fst (detect_tower_collapse tf h)")
  case True
  then show ?thesis
    using detect_tower_collapse_iff [of tf h] by (simp add: classify_def split_beta)
next
  case False
  then show ?thesis
    using detect_tower_collapse_iff [of tf h] detect_tower_collapse_False [of tf h]
      detect_block_removal_iff [of tf "snd (read_weight tf h)"]
    by (simp add: classify_def split_beta)
qed

lemma classify_last_weight:
  "last_weight (snd (classify tf h)) =
     (case fst (classify tf h) of
        TowerCollapsed \<Rightarrow> fst (read_weight tf h)
      | BlockRemoved \<Rightarrow> fst (read_weight tf (snd (read_weight tf h)))
      | NoEvent \<Rightarrow> last_weight h)"
proof (cases "fst (detect_tower_collapse tf h)")
  case True
  then show ?thesis
    using detect_tower_collapse_True [of tf h] by (simp add: classify_def split_beta)
next
  case no_collapse: False
  show ?thesis
  proof (cases "fst (detect_block_removal tf (snd (read_weight tf h)))")
    case True
    then show ?thesis
      using no_collapse detect_tower_collapse_False [of tf h]
        detect_block_removal_True [of tf "snd (read_weight tf h)"]
      by (simp add: classify_def split_beta)
  next
    case False
    then show ?thesis
      using no_collapse detect_tower_collapse_False [of tf h]
        detect_block_removal_False [of tf "snd (read_weight tf h)"]
      by (simp add: classify_def split_beta)
  qed
qed

subsection \<open>The frame update in terms of the event\<close>

lemma play_sound_fields [simp]:
  "serial_handler (play_sound s g) = serial_handler g"
  "leaderboard (play_sound s g) = leaderboard g"
  "state (play_sound s g) = state g"
  "blocks_removed (play_sound s g) = blocks_removed g"
  "start_time (play_sound s g) = start_time g"
  "time_remaining (play_sound s g) = time_remaining g"
  "team_name (play_sound s g) = team_name g"
  "tower_collapsed (play_sound s g) = tower_collapsed g"
  by (simp_all add: play_sound_def)

lemma update_not_playing: "state g \<noteq> PLAYING \<Longrightarrow> update tf t g = g"
  by (simp add: update_def)

lemma update_serial_handler:
  "state g = PLAYING
   \<Longrightarrow> serial_handler (update tf t g) = snd (classify tf (serial_handler g))"
  by (simp add: update_def classify_def Let_def split_beta)

lemma update_blocks_removed:
  "state g = PLAYING \<Longrightarrow>
   blocks_removed (update tf t g) =
     blocks_removed g + (if fst (classify tf (serial_handler g)) = BlockRemoved then 1 else 0)"
  by (simp add: update_def classify_def Let_def split_beta)

lemma update_state:
  "state g = PLAYING \<Longrightarrow>
   state (update tf t g) =
     (case fst (classify tf (serial_handler g)) of
        TowerCollapsed \<Rightarrow> POSTGAME
      | BlockRemoved \<Rightarrow>
          (if blocks_removed g + 1 \<ge> BLOCKS_TO_WIN
                \<or> fsub GAME_DURATION (fsub t (start_time g)) \<le> 0
           then POSTGAME else PLAYING)
      | NoEvent \<Rightarrow>
          (if fsub GAME_DURATION (fsub t (start_time g)) \<le> 0
           then POSTGAME else PLAYING))"
  by (simp add: update_def classify_def Let_def split_beta)

lemma update_time_remaining:
  "state g = PLAYING
   \<Longrightarrow> time_remaining (update tf t g) = fsub GAME_DURATION (fsub t (start_time g))"
  by (simp add: update_def Let_def split_beta)

lemma update_leaderboard: "leaderboard (update tf t g) = leaderboard g"
  by (simp add: update_def Let_def split_beta)

section \<open>Properties of the classifier\<close>

text \<open>
  C1. The specification expects a delta above \<open>COLLAPSE_THRESHOLD\<close> to be classified
  as \<open>TowerCollapsed\<close> and never as \<open>BlockRemoved\<close>, and an absolute delta between
  the two thresholds as \<open>BlockRemoved\<close>. In the program each detector polls the
  sampler on its own, so the two tests of one frame see different readings. At the stored
  weight 100, a single waiting reading of 107 (delta 7) is taken by the collapse detector
  and the removal detector, left with the stored weight, reports nothing; and when the
  readings 102 and 140 are waiting, the jump to 140 (delta 40) reaches only the removal
  detector and is classified as \<open>BlockRemoved\<close>.
\<close>

theorem classify_polls_twice:
  "classify float_plain \<lparr>serial = Some [Text ''107''], last_weight = 100\<rparr>
     = (NoEvent, \<lparr>serial = Some [], last_weight = 100\<rparr>)
   \<and> classify float_plain
        \<lparr>serial = Some [Text ''102'', Text ''Load_cell output val: 140''], last_weight = 100\<rparr>
     = (BlockRemoved, \<lparr>serial = Some [], last_weight = 140\<rparr>)"
  by (simp add: sensor_defs parses)

text \<open>
  C7. When the classification of a frame yields an event, the stored previous weight
  afterwards is the weight that triggered it: the reading of the collapse detector for
  \<open>TowerCollapsed\<close>, the reading of the removal detector for \<open>BlockRemoved\<close>. From
  any handler with that stored weight, a frame in which the sampler reports the same
  weight again yields no event and leaves the stored weight as it is.
\<close>

theorem debounce:
  assumes "classify tf h = (ev, h')" and "ev \<noteq> NoEvent"
  shows "last_weight h' =
           (if ev = TowerCollapsed then fst (read_weight tf h)
            else fst (read_weight tf (snd (read_weight tf h))))
       \<and> (\<forall>h2. last_weight h2 = last_weight h'
              \<and> fst (read_weight tf h2) = last_weight h'
              \<and> fst (read_weight tf (snd (read_weight tf h2))) = last_weight h'
            \<longrightarrow> fst (classify tf h2) = NoEvent
              \<and> last_weight (snd (classify tf h2)) = last_weight h')"
proof
  have "fst (classify tf h) = ev" and "snd (classify tf h) = h'"
    using assms(1) by simp_all
  then show "last_weight h' =
           (if ev = TowerCollapsed then fst (read_weight tf h)
            else fst (read_weight tf (snd (read_weight tf h))))"
    using classify_last_weight [of tf h] assms(2) by (cases ev) simp_all
  show "\<forall>h2. last_weight h2 = last_weight h'
              \<and> fst (read_weight tf h2) = last_weight h'
              \<and> fst (read_weight tf (snd (read_weight tf h2))) = last_weight h'
            \<longrightarrow> fst (classify tf h2) = NoEvent
              \<and> last_weight (snd (classify tf h2)) = last_weight h'"
  proof (intro allI impI)
    fix h2
    assume same: "last_weight h2 = last_weight h'
              \<and> fst (read_weight tf h2) = last_weight h'
              \<and> fst (read_weight tf (snd (read_weight tf h2))) = last_weight h'"
    then have quiet: "fst (classify tf h2) = NoEvent"
      by (simp add: classify_fst thresholds)
    then show "fst (classify tf h2) = NoEvent
              \<and> last_weight (snd (classify tf h2)) = last_weight h'"
      using classify_last_weight [of tf h2] same by simp
  qed
qed

text \<open>
  A block taken off at the stored weight 100 while the scale keeps reporting 107: the
  first frame reports the removal and moves the stored weight to 107, the next frame is
  silent.
\<close>

theorem debounce_witness:
  "classify float_plain
     \<lparr>serial = Some [Text ''107'', Text ''107'', Text ''107'', Text ''107''],
      last_weight = 100\<rparr>
     = (BlockRemoved, \<lparr>serial = Some [Text ''107'', Text ''107''], last_weight = 107\<rparr>)
   \<and> fst (classify float_plain
            \<lparr>serial = Some [Text ''107'', Text ''107''], last_weight = 107\<rparr>) = NoEvent
   \<and> last_weight (snd (classify float_plain
            \<lparr>serial = Some [Text ''107'', Text ''107''], last_weight = 107\<rparr>)) = 107"
proof -
  let ?h = "\<lparr>serial = Some [Text ''107'', Text ''107'', Text ''107'', Text ''107''],
             last_weight = 100\<rparr>"
  let ?h' = "\<lparr>serial = Some [Text ''107'', Text ''107''], last_weight = 107\<rparr>"
  have fired: "classify float_plain ?h = (BlockRemoved, ?h')"
    by (simp add: sensor_defs parses)
  have is_event: "BlockRemoved \<noteq> NoEvent" by simp
  have again: "last_weight ?h' = last_weight ?h'
     \<and> fst (read_weight float_plain ?h') = last_weight ?h'
     \<and> fst (read_weight float_plain (snd (read_weight float_plain ?h'))) = last_weight ?h'"
    by (simp add: read_weight_def parses)
  have "fst (classify float_plain ?h') = NoEvent
       \<and> last_weight (snd (classify float_plain ?h')) = last_weight ?h'"
    using debounce [OF fired is_event, THEN conjunct2, rule_format, OF again] .
  with fired show ?thesis by simp
qed

text \<open>
  C2. The specification's scenario: with one new sample per frame and deltas 2, -3 and
  7 against the stored weight, the events are none, none, \<open>BlockRemoved\<close>. The
  program polls the
  sampler twice per frame: the collapse detector takes the one line that is waiting, and
  the removal detector, polling again, finds the queue empty and gets the stored weight
  back. With the stored weight 100 and the lines 102, 97 and 107 arriving one per frame
  the events are none, none, none, and the main loop ends with no block counted and no
  sound played.
\<close>

theorem one_sample_per_tick_events:
  "tick_events float_plain [ [Text ''102''], [Text ''97''], [Text ''107''] ]
     \<lparr>serial = Some [], last_weight = 100\<rparr> = [NoEvent, NoEvent, NoEvent]
   \<and> blocks_removed (final (run float_plain 0
        [sample_frame ''102'' 1, sample_frame ''97'' 2, sample_frame ''107'' 3]
        (playing_game [] 0))) = 0
   \<and> played (final (run float_plain 0
        [sample_frame ''102'' 1, sample_frame ''97'' 2, sample_frame ''107'' 3]
        (playing_game [] 0))) = []"
  by (simp add: sensor_defs parses sample_frame_def playing_game_def update_def
      GAME_DURATION_def Let_def)

section \<open>Properties of the sampler\<close>

text \<open>
  C5, as the program has it. No call of the sampler changes the stored last weight (the
  detectors assign it when they report an event, and \<^verbatim>\<open>reset_game\<close> does). A call
  that parses a weight from the waiting line returns the parsed value. When the line does
  not parse, when reading fails, or when no line is waiting, the call returns the stored
  last weight. When the port could not be opened the call returns 0.
\<close>

theorem read_weight_amended:
  "last_weight (snd (read_weight tf h)) = last_weight h
   \<and> (serial h = Some (Text raw # q) \<and> parse_line tf raw = Some v
        \<longrightarrow> fst (read_weight tf h) = v)
   \<and> (serial h = Some (Text raw # q) \<and> parse_line tf raw = None
        \<longrightarrow> fst (read_weight tf h) = last_weight h)
   \<and> (serial h = Some (Fault # q) \<longrightarrow> fst (read_weight tf h) = last_weight h)
   \<and> (serial h = Some [] \<longrightarrow> fst (read_weight tf h) = last_weight h)
   \<and> (serial h = None \<longrightarrow> fst (read_weight tf h) = 0)"
  by (simp add: read_weight_def split: option.splits list.splits rx.splits)

theorem read_weight_amended_witness:
  "fst (read_weight float_plain
          \<lparr>serial = Some [Text ''abc'', Text ''102''], last_weight = 100\<rparr>) = 100
   \<and> fst (read_weight float_plain \<lparr>serial = Some [Text ''102''], last_weight = 100\<rparr>) = 102
   \<and> last_weight (snd (read_weight float_plain
          \<lparr>serial = Some [Text ''102''], last_weight = 100\<rparr>)) = 100
   \<and> fst (read_weight float_plain \<lparr>serial = Some [Fault], last_weight = 100\<rparr>) = 100
   \<and> fst (read_weight float_plain \<lparr>serial = Some [], last_weight = 100\<rparr>) = 100
   \<and> fst (read_weight float_plain \<lparr>serial = None, last_weight = 0\<rparr>) = 0"
  using
    read_weight_amended [of float_plain
      "\<lparr>serial = Some [Text ''abc'', Text ''102''], last_weight = 100\<rparr>"
      "''abc''" "[Text ''102'']"]
    read_weight_amended [of float_plain
      "\<lparr>serial = Some [Text ''102''], last_weight = 100\<rparr>" "''102''" "[]" 102]
    read_weight_amended [of float_plain "\<lparr>serial = Some [Fault], last_weight = 100\<rparr>" _ "[]"]
    read_weight_amended [of float_plain "\<lparr>serial = Some [], last_weight = 100\<rparr>"]
    read_weight_amended [of float_plain "\<lparr>serial = None, last_weight = 0\<rparr>"]
  by (simp add: parses)

text \<open>
  The line 12.5 is parsed and returned, and the stored last weight is still 0 after the
  call.
\<close>

theorem read_weight_counterexample:
  "fst (read_weight float_plain \<lparr>serial = Some [Text ''12.5''], last_weight = 0\<rparr>) = 25 / 2
   \<and> last_weight (snd (read_weight float_plain
        \<lparr>serial = Some [Text ''12.5''], last_weight = 0\<rparr>)) \<noteq> 25 / 2"
  by (simp add: read_weight_def parses)

section \<open>Properties of the game state machine\<close>

text \<open>
  C4. The specification expects a collapse during play to end the game with the
  collapsed flag set. In the program the collapse ends the game, but no statement ever
  assigns True to \<^verbatim>\<open>tower_collapsed\<close>, which \<^verbatim>\<open>draw_postgame\<close> reads to
  choose the collapse banner: with the stored weight 100 and a reading of 140, the
  frame update moves to \<open>POSTGAME\<close> and the flag is still False.
\<close>

theorem collapse_flag_not_set:
  "fst (classify float_plain
          (serial_handler (playing_game [Text ''Load_cell output val: 140''] 3)))
     = TowerCollapsed
   \<and> state (update float_plain 10 (playing_game [Text ''Load_cell output val: 140''] 3))
     = POSTGAME
   \<and> tower_collapsed
        (update float_plain 10 (playing_game [Text ''Load_cell output val: 140''] 3))
     = False"
  by (simp add: sensor_defs parses playing_game_def update_def GAME_DURATION_def
      play_sound_def Let_def)

lemma handle_event_playing:
  "state g = PLAYING \<Longrightarrow> handle_event tf ts0 ev e g = Inr g"
  by (simp add: handle_event_def split: pg_event.splits)

lemma handle_events_playing:
  "state g = PLAYING \<Longrightarrow> snd (handle_events tf ts0 evs g) = g"
  by (induction evs) (auto simp: handle_event_playing)

text \<open>
  C6. A start request (mouse click) handled in \<open>PREGAME\<close> puts the game in
  \<open>PLAYING\<close> with no blocks removed, the full duration remaining, the collapsed flag
  cleared and an empty team name, whatever the fields held before; the events that
  follow it in the same batch leave that state as it is.
\<close>

theorem start_resets:
  assumes "state g = PREGAME"
  shows "\<exists>g'. handle_event tf ts0 MOUSEBUTTONDOWN e g = Inr g'
           \<and> snd (handle_events tf ts0 ((MOUSEBUTTONDOWN, e) # rest) g) = g'
           \<and> state g' = PLAYING \<and> blocks_removed g' = 0 \<and> time_remaining g' = GAME_DURATION
           \<and> \<not> tower_collapsed g' \<and> team_name g' = []"
proof -
  let ?g' = "reset_game tf (now e) (g\<lparr>state := PLAYING\<rparr>)"
  have started: "handle_event tf ts0 MOUSEBUTTONDOWN e g = Inr ?g'"
    using assms by (simp add: handle_event_def)
  have fields: "state ?g' = PLAYING \<and> blocks_removed ?g' = 0
      \<and> time_remaining ?g' = GAME_DURATION \<and> \<not> tower_collapsed ?g' \<and> team_name ?g' = []"
    by (simp add: reset_game_def split_beta)
  then have "snd (handle_events tf ts0 rest ?g') = ?g'"
    by (simp add: handle_events_playing)
  then have "snd (handle_events tf ts0 ((MOUSEBUTTONDOWN, e) # rest) g) = ?g'"
    using started by simp
  with started fields show ?thesis by blast
qed

text \<open>
  The previous game ended with five blocks and the name ab; a click followed by a
  key press in the same batch starts the next one from the reset state.
\<close>

theorem start_resets_witness:
  "state (finished_game\<lparr>state := PREGAME\<rparr>) = PREGAME
   \<and> blocks_removed (finished_game\<lparr>state := PREGAME\<rparr>) = 5
   \<and> (\<exists>g'. handle_event float_plain 0 MOUSEBUTTONDOWN \<lparr>now = 200, db_fails = False\<rparr>
               (finished_game\<lparr>state := PREGAME\<rparr>) = Inr g'
           \<and> snd (handle_events float_plain 0
                 [(MOUSEBUTTONDOWN, \<lparr>now = 200, db_fails = False\<rparr>),
                  (KEYDOWN (K_OTHER ''x''), \<lparr>now = 200, db_fails = False\<rparr>)]
                 (finished_game\<lparr>state := PREGAME\<rparr>)) = g'
           \<and> state g' = PLAYING \<and> blocks_removed g' = 0 \<and> time_remaining g' = GAME_DURATION
           \<and> \<not> tower_collapsed g' \<and> team_name g' = [])"
proof -
  have pre: "state (finished_game\<lparr>state := PREGAME\<rparr>) = PREGAME" by simp
  have five: "blocks_removed (finished_game\<lparr>state := PREGAME\<rparr>) = 5"
    by (simp add: finished_game_def playing_game_def)
  from pre five start_resets [OF pre, of float_plain 0 "\<lparr>now = 200, db_fails = False\<rparr>"
      "[(KEYDOWN (K_OTHER ''x''), \<lparr>now = 200, db_fails = False\<rparr>)]"]
  show ?thesis by (intro conjI)
qed

section \<open>The score\<close>

lemma py_int_floor_shift:
  "0 \<le> x \<Longrightarrow> 0 \<le> k \<Longrightarrow> py_int (x + of_int k) = \<lfloor>x\<rfloor> + k"
  by (simp add: py_int_def)

lemma calculate_score_unrounded:
  assumes "score_unrounded g" and "0 \<le> time_remaining g" and "0 \<le> blocks_removed g"
  shows "calculate_score g =
           \<lfloor>time_remaining g * 10\<rfloor> + (if BLOCKS_TO_WIN \<le> blocks_removed g then 100 else 0)
           + blocks_removed g * 100"
proof (cases "BLOCKS_TO_WIN \<le> blocks_removed g")
  case True
  have "calculate_score g
          = py_int (time_remaining g * 10 + 100 + of_int (blocks_removed g * 100))"
    using True assms(1) by (simp add: calculate_score_def score_unrounded_def Let_def)
  also have "\<dots> = py_int (time_remaining g * 10 + of_int (100 + blocks_removed g * 100))"
    by (simp add: add.assoc)
  also have "\<dots> = \<lfloor>time_remaining g * 10\<rfloor> + (100 + blocks_removed g * 100)"
    using assms(2,3) by (intro py_int_floor_shift) simp_all
  finally show ?thesis using True by simp
next
  case False
  have "calculate_score g = py_int (time_remaining g * 10 + of_int (blocks_removed g * 100))"
    using False assms(1) by (simp add: calculate_score_def score_unrounded_def Let_def)
  also have "\<dots> = \<lfloor>time_remaining g * 10\<rfloor> + blocks_removed g * 100"
    using assms(2,3) by (intro py_int_floor_shift) simp_all
  finally show ?thesis using False by simp
qed

text \<open>
  Where an operation rounds, the score can differ from the formula on the exact values:
  with the double nearest to 0.3 the product is 3 and the score 3, not 2; with nine blocks
  and 0.6999999999999998 s left the last sum is 907, not 906.99....
\<close>

lemma calculate_score_rounded_product:
  "calculate_score
     ((playing_game [] 0)\<lparr>time_remaining := 5404319552844595 / 18014398509481984\<rparr>) = 3"
  by code_simp

lemma calculate_score_rounded_sum:
  "calculate_score
     ((playing_game [] 9)\<lparr>time_remaining := 6305039478318693 / 9007199254740992\<rparr>) = 907"
  by code_simp

text \<open>
  A remaining time on a binary grid, small enough for the score to have 53 bits there,
  goes through the three operations without rounding.
\<close>

lemma score_unrounded_dyadic:
  assumes tr: "time_remaining g = of_int n / 2 ^ j"
    and "0 \<le> n" and "0 \<le> blocks_removed g" and "j \<le> 1074"
    and small: "10 * n + (100 * blocks_removed g + 100) * 2 ^ j < 2 ^ 53"
  shows "score_unrounded g"
proof -
  let ?b = "blocks_removed g"
  let ?u = "(2::real) powi (- int j)"
  define k :: int where "k = (if BLOCKS_TO_WIN \<le> ?b then 100 else 0)"
  have k: "0 \<le> k" "k \<le> 100" by (simp_all add: k_def)
  have j: "- 1074 \<le> - int j" using assms(4) by simp
  have unit: "2 ^ j * ?u = 1" by (simp add: power_int_minus)
  have shift: "of_int a * ?u + of_int c = of_int (a + c * 2 ^ j) * ?u" for a c :: int
  proof -
    have "of_int (a + c * 2 ^ j) * ?u = of_int a * ?u + of_int c * (2 ^ j * ?u)"
      by (simp add: algebra_simps)
    then show ?thesis by (simp add: unit)
  qed
  have pow: "(1::int) \<le> 2 ^ j" by simp
  have kb: "k * 2 ^ j \<le> 100 * 2 ^ j"
    using k by (intro mult_right_mono) simp_all
  have b1: "0 \<le> 100 * ?b * 2 ^ j" using assms(3) by simp
  have b2: "100 * ?b \<le> 100 * ?b * 2 ^ j"
    using assms(3) pow by (metis mult.right_neutral mult_left_mono mult_nonneg_nonneg zero_le_numeral)
  have expand: "(100 * ?b + 100) * 2 ^ j = 100 * ?b * 2 ^ j + 100 * 2 ^ j"
    by (simp add: algebra_simps)
  have s: "time_remaining g * 10 = of_int (10 * n) * ?u"
    by (simp add: tr power_int_minus field_simps)
  have r1: "fl (of_int (10 * n) * ?u) = of_int (10 * n) * ?u"
  proof (intro fl_dyadic j)
    have "0 \<le> 100 * 2 ^ j + 100 * ?b * 2 ^ j" using b1 by simp
    then have "10 * n < 2 ^ 53" using small expand by linarith
    then show "\<bar>10 * n\<bar> < 2 ^ 53" using assms(2) by simp
  qed
  have sk: "time_remaining g * 10 + of_int k = of_int (10 * n + k * 2 ^ j) * ?u"
    unfolding s by (rule shift)
  have r2: "fl (of_int (10 * n + k * 2 ^ j) * ?u) = of_int (10 * n + k * 2 ^ j) * ?u"
  proof (intro fl_dyadic j)
    have "0 \<le> 10 * n + k * 2 ^ j" using assms(2) k by simp
    moreover have "10 * n + k * 2 ^ j < 2 ^ 53" using small kb b1 expand by linarith
    ultimately show "\<bar>10 * n + k * 2 ^ j\<bar> < 2 ^ 53" by simp
  qed
  have r3: "fl (of_int (?b * 100)) = of_int (?b * 100)"
  proof (intro fl_of_int)
    have "(0::int) \<le> 100 * 2 ^ j" by simp
    then have "100 * ?b < 2 ^ 53" using small b2 expand assms(2) by linarith
    then show "\<bar>?b * 100\<bar> < 2 ^ 53" using assms(3) by (simp add: mult.commute)
  qed
  have skm: "time_remaining g * 10 + of_int k + of_int (?b * 100)
      = of_int (10 * n + k * 2 ^ j + ?b * 100 * 2 ^ j) * ?u"
    unfolding sk by (rule shift)
  have r4: "fl (of_int (10 * n + k * 2 ^ j + ?b * 100 * 2 ^ j) * ?u)
      = of_int (10 * n + k * 2 ^ j + ?b * 100 * 2 ^ j) * ?u"
  proof (intro fl_dyadic j)
    have "0 \<le> 10 * n + k * 2 ^ j + ?b * 100 * 2 ^ j" using assms(2,3) k by simp
    moreover have "?b * 100 * 2 ^ j = 100 * ?b * 2 ^ j" by simp
    then have "10 * n + k * 2 ^ j + ?b * 100 * 2 ^ j < 2 ^ 53"
      using small kb expand by linarith
    ultimately show "\<bar>10 * n + k * 2 ^ j + ?b * 100 * 2 ^ j\<bar> < 2 ^ 53" by simp
  qed
  have kreal: "(if BLOCKS_TO_WIN \<le> ?b then 100 else 0) = (of_int k :: real)"
    by (simp add: k_def)
  have c1: "fmul (time_remaining g) 10 = time_remaining g * 10"
    unfolding fmul_def s by (rule r1)
  have c2: "fadd (time_remaining g * 10) (of_int k) = time_remaining g * 10 + of_int k"
    unfolding fadd_def sk by (rule r2)
  have c4: "fadd (time_remaining g * 10 + of_int k) (of_int (?b * 100))
      = time_remaining g * 10 + of_int k + of_int (?b * 100)"
    unfolding fadd_def skm by (rule r4)
  show ?thesis
    unfolding score_unrounded_def Let_def kreal by (intro conjI c1 c2 r3 c4)
qed

text \<open>
  C3, as the program has it. The score is ten times the remaining time, plus the bonus
  of 100 when at least \<open>BLOCKS_TO_WIN\<close> blocks are removed, plus 100 per block, each
  operation rounded to the nearest double and the sum truncated towards zero; the
  remaining time enters as it is, with no clamp. When the remaining time and the block
  count are not negative and none of the operations rounds, this is the floor of ten
  times the remaining time, plus the bonus, plus 100 per block. None of them rounds when
  the remaining time is \<open>n / 2 ^ j\<close> and \<open>10 * n + (100 * blocks + 100) * 2 ^ j\<close> is
  below \<open>2 ^ 53\<close>. The scores for (0 blocks, 120 s), (10 blocks, 60 s) and (5 blocks,
  0 s) are 1200, 1700 and 500.
\<close>

theorem calculate_score_amended:
  "calculate_score g =
     py_int (fadd (fadd (fmul (time_remaining g) 10)
                     (if BLOCKS_TO_WIN \<le> blocks_removed g then 100 else 0))
               (fl (of_int (blocks_removed g * 100))))
   \<and> (0 \<le> time_remaining g \<and> 0 \<le> blocks_removed g \<and> score_unrounded g \<longrightarrow>
        calculate_score g =
          \<lfloor>time_remaining g * 10\<rfloor> + (if BLOCKS_TO_WIN \<le> blocks_removed g then 100 else 0)
          + blocks_removed g * 100)
   \<and> (time_remaining g = of_int n / 2 ^ j \<and> 0 \<le> n \<and> 0 \<le> blocks_removed g \<and> j \<le> 1074
        \<and> 10 * n + (100 * blocks_removed g + 100) * 2 ^ j < 2 ^ 53 \<longrightarrow> score_unrounded g)
   \<and> calculate_score (g\<lparr>blocks_removed := 0, time_remaining := 120\<rparr>) = 1200
   \<and> calculate_score (g\<lparr>blocks_removed := 10, time_remaining := 60\<rparr>) = 1700
   \<and> calculate_score (g\<lparr>blocks_removed := 5, time_remaining := 0\<rparr>) = 500"
proof (intro conjI impI)
  show "calculate_score g =
     py_int (fadd (fadd (fmul (time_remaining g) 10)
                     (if BLOCKS_TO_WIN \<le> blocks_removed g then 100 else 0))
               (fl (of_int (blocks_removed g * 100))))"
    by (simp add: calculate_score_def)
  show "calculate_score g =
          \<lfloor>time_remaining g * 10\<rfloor> + (if BLOCKS_TO_WIN \<le> blocks_removed g then 100 else 0)
          + blocks_removed g * 100"
    if "0 \<le> time_remaining g \<and> 0 \<le> blocks_removed g \<and> score_unrounded g"
    using that calculate_score_unrounded by blast
  show "score_unrounded g"
    if "time_remaining g = of_int n / 2 ^ j \<and> 0 \<le> n \<and> 0 \<le> blocks_removed g \<and> j \<le> 1074
        \<and> 10 * n + (100 * blocks_removed g + 100) * 2 ^ j < 2 ^ 53"
    using that score_unrounded_dyadic by blast
  show "calculate_score (g\<lparr>blocks_removed := 0, time_remaining := 120\<rparr>) = 1200"
    by (simp add: calculate_score_def py_int_def BLOCKS_TO_WIN_def float_ops)
  show "calculate_score (g\<lparr>blocks_removed := 10, time_remaining := 60\<rparr>) = 1700"
    by (simp add: calculate_score_def py_int_def BLOCKS_TO_WIN_def float_ops)
  show "calculate_score (g\<lparr>blocks_removed := 5, time_remaining := 0\<rparr>) = 500"
    by (simp add: calculate_score_def py_int_def BLOCKS_TO_WIN_def float_ops)
qed

text \<open>Seven blocks with 12.25 s left, that is 49 / 4: the score is 122 + 700.\<close>

theorem calculate_score_amended_witness:
  "time_remaining ((playing_game [] 7)\<lparr>time_remaining := 49 / 4\<rparr>) = of_int 49 / 2 ^ 2
   \<and> score_unrounded ((playing_game [] 7)\<lparr>time_remaining := 49 / 4\<rparr>)
   \<and> calculate_score ((playing_game [] 7)\<lparr>time_remaining := 49 / 4\<rparr>) = 822"
proof -
  let ?g = "(playing_game [] 7)\<lparr>time_remaining := 49 / 4\<rparr>"
  have grid: "time_remaining ?g = of_int 49 / 2 ^ 2 \<and> 0 \<le> (49::int) \<and> 0 \<le> blocks_removed ?g
      \<and> (2::nat) \<le> 1074 \<and> 10 * 49 + (100 * blocks_removed ?g + 100) * 2 ^ 2 < 2 ^ 53"
    by (simp add: playing_game_def)
  have exact: "score_unrounded ?g"
    using calculate_score_amended [of ?g 49 2] grid by blast
  have "0 \<le> time_remaining ?g \<and> 0 \<le> blocks_removed ?g \<and> score_unrounded ?g"
    using exact by (simp add: playing_game_def)
  then have "calculate_score ?g =
          \<lfloor>time_remaining ?g * 10\<rfloor> + (if BLOCKS_TO_WIN \<le> blocks_removed ?g then 100 else 0)
          + blocks_removed ?g * 100"
    using calculate_score_amended [of ?g 49 2] by blast
  then have "calculate_score ?g = 822"
    by (simp add: playing_game_def BLOCKS_TO_WIN_def)
  with grid exact show ?thesis by simp
qed

text \<open>
  A game with five blocks whose frame update runs 120.5 s after the start: the update
  stores the remaining time -0.5 and ends the game, and the score is 495, where the
  clamped formula gives 500. All values involved are doubles, so no operation rounds.
\<close>

theorem score_clamp_counterexample:
  "state (update float_plain (241 / 2) (playing_game [] 5)) = POSTGAME
   \<and> time_remaining (update float_plain (241 / 2) (playing_game [] 5)) = - 1 / 2
   \<and> calculate_score (update float_plain (241 / 2) (playing_game [] 5)) = 495
   \<and> calculate_score (update float_plain (241 / 2) (playing_game [] 5))
       \<noteq> \<lfloor>max (time_remaining (update float_plain (241 / 2) (playing_game [] 5))) 0 * 10\<rfloor>
          + (if blocks_removed (update float_plain (241 / 2) (playing_game [] 5))
                \<ge> BLOCKS_TO_WIN then 100 else 0)
          + blocks_removed (update float_plain (241 / 2) (playing_game [] 5)) * 100"
  by (simp add: sensor_defs playing_game_def update_def GAME_DURATION_def play_sound_def
      Let_def calculate_score_def py_int_def BLOCKS_TO_WIN_def)

section \<open>A port that could not be opened\<close>

lemma read_weight_offline: "offline h \<Longrightarrow> read_weight tf h = (0, h)"
  by (simp add: offline_def read_weight_def)

lemma classify_offline: "offline h \<Longrightarrow> classify tf h = (NoEvent, h)"
  by (simp add: classify_def detect_tower_collapse_def detect_block_removal_def
      read_weight_offline thresholds) (simp add: offline_def)

lemma receive_offline: "offline h \<Longrightarrow> receive new h = h"
  by (simp add: offline_def receive_def)

lemma reset_game_offline:
  "offline (serial_handler g) \<Longrightarrow> offline (serial_handler (reset_game tf t g))"
  by (simp add: reset_game_def read_weight_offline) (simp add: offline_def)

lemma handle_event_offline:
  "offline (serial_handler g) \<Longrightarrow> handle_event tf ts0 ev e g = Inr g'
   \<Longrightarrow> offline (serial_handler g')"
  by (auto simp: handle_event_def add_score_def reset_game_offline
      split: pg_event.splits key.splits if_splits)

lemma handle_events_offline:
  "offline (serial_handler g)
   \<Longrightarrow> offline (serial_handler (snd (handle_events tf ts0 evs g)))"
proof (induction evs arbitrary: g)
  case Nil
  then show ?case by simp
next
  case (Cons p evs)
  obtain ev e where p: "p = (ev, e)" by (cases p)
  show ?case
  proof (cases "handle_event tf ts0 ev e g")
    case (Inl err)
    then show ?thesis using Cons.prems p by simp
  next
    case (Inr g')
    then have "offline (serial_handler g')"
      using Cons.prems handle_event_offline by blast
    then show ?thesis using Cons.IH [of g'] Inr p Cons.prems by simp
  qed
qed

lemma update_offline:
  "offline (serial_handler g) \<Longrightarrow> offline (serial_handler (update tf t g))"
  by (cases "state g = PLAYING")
    (simp_all add: update_serial_handler classify_offline update_not_playing)

lemma run_offline:
  "offline (serial_handler g) \<Longrightarrow> offline (serial_handler (final (run tf ts0 fs g)))"
proof (induction fs arbitrary: g)
  case Nil
  then show ?case by simp
next
  case (Cons f fs)
  let ?g0 = "g\<lparr>serial_handler := receive (arrivals f) (serial_handler g)\<rparr>"
  have g0: "offline (serial_handler ?g0)"
    using Cons.prems by (simp add: receive_offline)
  obtain r g1 where handled: "handle_events tf ts0 (events f) ?g0 = (r, g1)"
    by (cases "handle_events tf ts0 (events f) ?g0")
  then have g1: "offline (serial_handler g1)"
    using handle_events_offline [OF g0, of tf ts0 "events f"] by simp
  show ?case
  proof (cases r)
    case (Inl err)
    then show ?thesis using handled g1 by (simp add: Let_def)
  next
    case (Inr running)
    have g2: "offline (serial_handler (update tf (tick_time f) g1))"
      using g1 by (rule update_offline)
    show ?thesis
    proof (cases running)
      case True
      then show ?thesis using handled Inr Cons.IH [OF g2] by (simp add: Let_def)
    next
      case False
      then show ?thesis using handled Inr g2 by (simp add: Let_def)
    qed
  qed
qed

lemma init_offline: "offline (serial_handler (AtlasJengaGame_init tf None rows t0))"
  by (simp add: AtlasJengaGame_init_def SerialHandler_init_def reset_game_def
      read_weight_def offline_def)

text \<open>
  C8. Start the program with a port that could not be opened, let the main loop run over
  any frames, and take the game on which the frame update of the next frame is called
  (after the arrivals and the input events of that frame). There the classification
  yields no event and leaves the handler as it is; the frame update removes no block;
  and if it takes the game from \<open>PLAYING\<close> to \<open>POSTGAME\<close>, the remaining time it
  computed is at most 0, that is, the game ended by timeout.
\<close>

theorem transport_unavailable:
  "let g = final (run tf ts0 fs (AtlasJengaGame_init tf None rows t0));
       g1 = snd (handle_events tf ts0 evs
                  (g\<lparr>serial_handler := receive new (serial_handler g)\<rparr>)) in
     classify tf (serial_handler g1) = (NoEvent, serial_handler g1)
     \<and> (\<forall>t. blocks_removed (update tf t g1) = blocks_removed g1
            \<and> (state g1 = PLAYING \<and> state (update tf t g1) = POSTGAME
                 \<longrightarrow> time_remaining (update tf t g1) \<le> 0))"
proof -
  let ?g = "final (run tf ts0 fs (AtlasJengaGame_init tf None rows t0))"
  let ?g1 = "snd (handle_events tf ts0 evs
                   (?g\<lparr>serial_handler := receive new (serial_handler ?g)\<rparr>))"
  have "offline (serial_handler ?g)"
    using init_offline by (rule run_offline)
  then have "offline (serial_handler (?g\<lparr>serial_handler := receive new (serial_handler ?g)\<rparr>))"
    by (simp add: receive_offline)
  then have "offline (serial_handler ?g1)"
    by (rule handle_events_offline)
  then have quiet: "classify tf (serial_handler ?g1) = (NoEvent, serial_handler ?g1)"
    by (rule classify_offline)
  have "blocks_removed (update tf t ?g1) = blocks_removed ?g1
            \<and> (state ?g1 = PLAYING \<and> state (update tf t ?g1) = POSTGAME
                 \<longrightarrow> time_remaining (update tf t ?g1) \<le> 0)" for t
  proof (cases "state ?g1 = PLAYING")
    case True
    then show ?thesis using quiet
      by (simp add: update_blocks_removed update_state update_time_remaining
          split: if_splits)
  next
    case False
    then show ?thesis by (simp add: update_not_playing)
  qed
  with quiet show ?thesis by (simp add: Let_def)
qed

text \<open>
  After an idle frame a click starts the game at time 5; the frame update at 126 s ends
  it with -1 s remaining.
\<close>

theorem transport_unavailable_witness:
  "state (snd (handle_events float_plain 0 (events (click_frame 5))
        (final (run float_plain 0 [idle_frame 1]
            (AtlasJengaGame_init float_plain None [] 0))))) = PLAYING
   \<and> state (update float_plain 126
        (snd (handle_events float_plain 0 (events (click_frame 5))
          (final (run float_plain 0 [idle_frame 1]
            (AtlasJengaGame_init float_plain None [] 0)))))) = POSTGAME
   \<and> time_remaining (update float_plain 126
        (snd (handle_events float_plain 0 (events (click_frame 5))
          (final (run float_plain 0 [idle_frame 1]
            (AtlasJengaGame_init float_plain None [] 0)))))) \<le> 0
   \<and> fst (classify float_plain (serial_handler
        (snd (handle_events float_plain 0 (events (click_frame 5))
          (final (run float_plain 0 [idle_frame 1]
            (AtlasJengaGame_init float_plain None [] 0))))))) = NoEvent"
proof -
  let ?g = "final (run float_plain 0 [idle_frame 1]
              (AtlasJengaGame_init float_plain None [] 0))"
  let ?g1 = "snd (handle_events float_plain 0 (events (click_frame 5)) ?g)"
  have g: "?g = \<lparr>serial_handler = \<lparr>serial = None, last_weight = 0\<rparr>,
      leaderboard = [], played = [], state = PREGAME, blocks_removed = 0,
      start_time = 0, time_remaining = 120, current_score = 0, team_name = [],
      tower_collapsed = False\<rparr>"
    by (simp add: idle_frame_def AtlasJengaGame_init_def SerialHandler_init_def
        reset_game_def update_def sensor_defs GAME_DURATION_def Let_def)
  have g1: "?g1 = \<lparr>serial_handler = \<lparr>serial = None, last_weight = 0\<rparr>,
      leaderboard = [], played = [], state = PLAYING, blocks_removed = 0,
      start_time = 5, time_remaining = 120, current_score = 0, team_name = [],
      tower_collapsed = False\<rparr>"
    unfolding g
    by (simp add: click_frame_def reset_game_def handle_event_def sensor_defs
        GAME_DURATION_def Let_def)
  have same: "?g\<lparr>serial_handler := receive [] (serial_handler ?g)\<rparr> = ?g"
    unfolding g by (simp add: receive_def)
  have playing: "state ?g1 = PLAYING" unfolding g1 by simp
  have ended: "state (update float_plain 126 ?g1) = POSTGAME"
    unfolding g1 by (simp add: update_def sensor_defs GAME_DURATION_def Let_def)
  have general: "classify float_plain (serial_handler ?g1) = (NoEvent, serial_handler ?g1)
     \<and> (\<forall>t. blocks_removed (update float_plain t ?g1) = blocks_removed ?g1
            \<and> (state ?g1 = PLAYING \<and> state (update float_plain t ?g1) = POSTGAME
                 \<longrightarrow> time_remaining (update float_plain t ?g1) \<le> 0))"
    using transport_unavailable [where tf = float_plain and ?ts0.0 = 0
        and fs = "[idle_frame 1]" and rows = "[]" and ?t0.0 = 0
        and evs = "events (click_frame 5)" and new = "[]"]
    unfolding Let_def same .
  then have "time_remaining (update float_plain 126 ?g1) \<le> 0"
    using playing ended by blast
  with playing ended general show ?thesis by simp
qed

section \<open>Submitting a score\<close>

text \<open>
  C9, as the program has it. When Enter is pressed in \<open>POSTGAME\<close> and the database
  write fails, the handler of the event raises \<open>PersistenceFailure\<close>;
  \<^verbatim>\<open>handle_events\<close> passes the exception on with the game object unchanged (the
  counters, the team name, the flag and the phase \<open>POSTGAME\<close> are as before); and the
  main loop, which does not catch it, ends with that exception.
\<close>

theorem submit_failure_amended:
  assumes "state g = POSTGAME" and "db_fails e"
  shows "handle_event tf ts0 (KEYDOWN K_RETURN) e g = Inl PersistenceFailure
       \<and> handle_events tf ts0 ((KEYDOWN K_RETURN, e) # rest) g = (Inl PersistenceFailure, g)
       \<and> (events f = (KEYDOWN K_RETURN, e) # rest \<longrightarrow>
            run tf ts0 (f # fs) g =
              Crashed PersistenceFailure
                (g\<lparr>serial_handler := receive (arrivals f) (serial_handler g)\<rparr>))"
  using assms by (simp add: handle_event_def add_score_def Let_def)

theorem submit_failure_amended_witness:
  "state finished_game = POSTGAME
   \<and> db_fails \<lparr>now = 130, db_fails = True\<rparr>
   \<and> handle_events float_plain 0 [(KEYDOWN K_RETURN, \<lparr>now = 130, db_fails = True\<rparr>)]
       finished_game = (Inl PersistenceFailure, finished_game)"
proof -
  have post: "state finished_game = POSTGAME" by (simp add: finished_game_def)
  have fails: "db_fails \<lparr>now = 130, db_fails = True\<rparr>" by simp
  from post fails submit_failure_amended [OF post fails, of float_plain 0 "[]"]
  show ?thesis by simp
qed

text \<open>
  The failed submission is followed by a frame with a click; the loop never reaches
  it.
\<close>

theorem submit_failure_counterexample:
  "run float_plain 0 [submit_fails, click_frame 131] finished_game
     = Crashed PersistenceFailure finished_game"
  by (simp add: submit_fails_def finished_game_def playing_game_def handle_event_def
      add_score_def receive_def Let_def)

subsection \<open>Timestamps of the submitted scores\<close>

lemma handle_event_leaderboard:
  "handle_event tf ts0 ev e g = Inr g' \<Longrightarrow>
   leaderboard g' = leaderboard g
   \<or> (\<exists>sc. leaderboard g' = leaderboard g @ [sc] \<and> score_timestamp sc = ts0)"
  by (auto simp: handle_event_def add_score_def reset_game_def split_beta Let_def
      split: pg_event.splits key.splits if_splits)

lemma added_with_refl: "added_with ts0 rows rows"
  by (simp add: added_with_def)

lemma added_with_trans:
  assumes "added_with ts0 a b" and "added_with ts0 b c"
  shows "added_with ts0 a c"
proof -
  obtain x where b: "b = a @ x" and x: "\<forall>sc\<in>set x. score_timestamp sc = ts0"
    using assms(1) unfolding added_with_def by (metis append_take_drop_id)
  obtain y where c: "c = b @ y" and y: "\<forall>sc\<in>set y. score_timestamp sc = ts0"
    using assms(2) unfolding added_with_def by (metis append_take_drop_id)
  show ?thesis using b c x y by (auto simp: added_with_def)
qed

lemma handle_event_added:
  "handle_event tf ts0 ev e g = Inr g' \<Longrightarrow> added_with ts0 (leaderboard g) (leaderboard g')"
  using handle_event_leaderboard [of tf ts0 ev e g g'] by (auto simp: added_with_def)

lemma handle_events_added:
  "added_with ts0 (leaderboard g) (leaderboard (snd (handle_events tf ts0 evs g)))"
proof (induction evs arbitrary: g)
  case Nil
  then show ?case by (simp add: added_with_refl)
next
  case (Cons p evs)
  obtain ev e where p: "p = (ev, e)" by (cases p)
  show ?case
  proof (cases "handle_event tf ts0 ev e g")
    case (Inl err)
    then show ?thesis using p by (simp add: added_with_refl)
  next
    case (Inr g')
    then show ?thesis
      using p handle_event_added [OF Inr] Cons.IH [of g']
      by (auto simp: added_with_refl intro: added_with_trans)
  qed
qed

lemma run_added:
  "added_with ts0 (leaderboard g) (leaderboard (final (run tf ts0 fs g)))"
proof (induction fs arbitrary: g)
  case Nil
  then show ?case by (simp add: added_with_refl)
next
  case (Cons f fs)
  let ?g0 = "g\<lparr>serial_handler := receive (arrivals f) (serial_handler g)\<rparr>"
  obtain r g1 where handled: "handle_events tf ts0 (events f) ?g0 = (r, g1)"
    by (cases "handle_events tf ts0 (events f) ?g0")
  have g1: "added_with ts0 (leaderboard g) (leaderboard g1)"
    using handle_events_added [of ts0 ?g0 tf "events f"] handled by simp
  show ?case
  proof (cases r)
    case (Inl err)
    then show ?thesis using handled g1 by (simp add: Let_def)
  next
    case (Inr running)
    let ?g2 = "update tf (tick_time f) g1"
    have g2: "added_with ts0 (leaderboard g) (leaderboard ?g2)"
      using g1 by (simp add: update_leaderboard)
    show ?thesis
    proof (cases running)
      case True
      then show ?thesis
        using handled Inr added_with_trans [OF g2 Cons.IH [of ?g2]] by (simp add: Let_def)
    next
      case False
      then show ?thesis using handled Inr g2 by (simp add: Let_def)
    qed
  qed
qed

text \<open>
  C10. Over any run of the main loop the leaderboard keeps its rows and every row the
  run adds carries the same timestamp \<open>ts0\<close>, the default evaluated when the Score
  class was defined, whatever the clock shows when a score is submitted.
\<close>

theorem submissions_share_timestamp:
  "take (length (leaderboard g)) (leaderboard (final (run tf ts0 fs g))) = leaderboard g
   \<and> (\<forall>sc \<in> set (drop (length (leaderboard g)) (leaderboard (final (run tf ts0 fs g)))).
         score_timestamp sc = ts0)"
  using run_added [of ts0 g tf fs] by (simp add: added_with_def)

text \<open>
  Two games submitted at 130 s and at 300 s in a program loaded at 1000 s: both rows
  carry 1000.
\<close>

theorem submissions_share_timestamp_witness:
  "map score_timestamp (leaderboard (final (run float_plain 1000 two_games finished_game)))
     = [1000, 1000]"
proof -
  have two: "length (leaderboard (final (run float_plain 1000 two_games finished_game))) = 2"
    by (simp add: two_games_def key_frame_def click_frame_def idle_frame_def
        finished_game_def playing_game_def handle_event_def add_score_def reset_game_def
        update_def sensor_defs GAME_DURATION_def play_sound_def Let_def)
  have none_before: "leaderboard finished_game = []"
    by (simp add: finished_game_def playing_game_def)
  have "\<forall>sc \<in> set (leaderboard (final (run float_plain 1000 two_games finished_game))).
          score_timestamp sc = 1000"
    using submissions_share_timestamp [of finished_game float_plain 1000 two_games]
      none_before by simp
  then have "map score_timestamp
        (leaderboard (final (run float_plain 1000 two_games finished_game)))
      = replicate
          (length (leaderboard (final (run float_plain 1000 two_games finished_game)))) 1000"
    by (simp add: map_replicate_const [symmetric] cong: map_cong)
  then show ?thesis by (simp add: two numeral_2_eq_2)
qed

end
